theory Spec2Isabelle
  imports Complex_Main "HOL-Library.Sublist"
begin

section \<open>Python values, strings and exceptions\<close>

text \<open>
  A decoded JSON value is a \<open>json\<close>; a dictionary keeps its items in order, each key
  once. No function here computes with a number, and \<open>JNum\<close> holds an integer.
  Raised exceptions are values: every function of the source that can raise returns
  \<open>exn + 'a\<close>, with \<open>Inl\<close> the exception. \<open>APIError\<close> is the
  \<^verbatim>\<open>Exception(f"API error: {error}")\<close> of \<^verbatim>\<open>call_single_request\<close>,
  \<open>RequestFailed\<close> its \<^verbatim>\<open>Exception(f"API request failed with status ...")\<close>,
  \<open>TransportError\<close> a failure of the POST itself or of the JSON decoding of its body.
\<close>

datatype json =
    JNull
  | JBool bool
  | JNum int
  | JStr string
  | JArr "json list"
  | JObj "(string \<times> json) list"

datatype exn =
    TypeError
  | ValueError
  | KeyError
  | IndexError
  | AttributeError
  | ValidationError
  | FileNotFoundError
  | EOFError
  | TransportError
  | APIError json
  | RequestFailed int json

text \<open>
  \<^verbatim>\<open>str.lower()\<close> on the ASCII letters; every other character is left as it is.
\<close>

definition lower_char :: "char \<Rightarrow> char" where
  "lower_char c =
     (case map_of (zip ''ABCDEFGHIJKLMNOPQRSTUVWXYZ'' ''abcdefghijklmnopqrstuvwxyz'') c of
        Some d \<Rightarrow> d
      | None \<Rightarrow> c)"

definition lower :: "string \<Rightarrow> string" where
  "lower s = map lower_char s"

text \<open>
  \<^verbatim>\<open>needle in haystack\<close> on two strings is \<^const>\<open>sublist\<close>.
  \<^verbatim>\<open>s.split(sep)\<close> for a separator that is not empty: the pieces between the
  occurrences of \<open>sep\<close>, found from the left without overlap.
\<close>

fun split_from :: "string \<Rightarrow> string \<Rightarrow> string \<Rightarrow> string list" where
  "split_from sep acc [] = [rev acc]"
| "split_from sep acc (c # cs) =
     (if sep \<noteq> [] \<and> prefix sep (c # cs)
      then rev acc # split_from sep [] (drop (length sep) (c # cs))
      else split_from sep (c # acc) cs)"

definition split :: "string \<Rightarrow> string \<Rightarrow> string list" where
  "split sep s = split_from sep [] s"

section \<open>Structured output support\<close>

text \<open>
  A date is (year, month, day); \<^verbatim>\<open>datetime.datetime.strptime(s, "%Y-%m-%d")\<close> is the
  parameter \<open>strptime\<close>, \<open>None\<close> where it raises \<^verbatim>\<open>ValueError\<close>. Two
  datetimes at midnight compare as their dates do.
\<close>

type_synonym date = "nat \<times> nat \<times> nat"

fun date_ge :: "date \<Rightarrow> date \<Rightarrow> bool" where
  "date_ge (y, m, d) (y', m', d') =
     (y' < y \<or> (y = y' \<and> (m' < m \<or> (m = m' \<and> d' \<le> d))))"

text \<open>
  \<^verbatim>\<open>datetime.datetime.strptime(model_name.split(sep)[1], "%Y-%m-%d")\<close>
\<close>

definition dated_suffix :: "(string \<Rightarrow> date option) \<Rightarrow> string \<Rightarrow> string \<Rightarrow> exn + date" where
  "dated_suffix strptime sep model_name =
     (case split sep model_name of
        _ # d # _ \<Rightarrow> (case strptime d of None \<Rightarrow> Inl ValueError | Some t \<Rightarrow> Inr t)
      | _ \<Rightarrow> Inl IndexError)"

text \<open>
  \<^verbatim>\<open>check_structured_output_support\<close>, in three parts: the o1 check that ends the
  function, the gpt-4o check before it, and the gpt-4o-mini check that starts it. In the
  gpt-4o-mini branch the guard is \<^verbatim>\<open>mini_date >= datetime(2024, 7, 18)\<close> where
  \<^verbatim>\<open>datetime\<close> is the module: evaluating it raises \<^verbatim>\<open>TypeError\<close> once
  \<^verbatim>\<open>mini_date\<close> has been parsed.
\<close>

definition check_o1 :: "(string \<Rightarrow> date option) \<Rightarrow> string \<Rightarrow> exn + bool" where
  "check_o1 strptime model_name =
     (if sublist ''o1-'' model_name then
        (case dated_suffix strptime ''o1-'' model_name of
           Inl e \<Rightarrow> Inl e
         | Inr base_date \<Rightarrow> if date_ge base_date (2024, 12, 17) then Inr True else Inr False)
      else Inr False)"

definition check_gpt_4o :: "(string \<Rightarrow> date option) \<Rightarrow> string \<Rightarrow> exn + bool" where
  "check_gpt_4o strptime model_name =
     (if model_name = ''gpt-4o'' \<or> model_name = ''o1'' then Inr True
      else if sublist ''gpt-4o-'' model_name then
        (case dated_suffix strptime ''gpt-4o-'' model_name of
           Inl e \<Rightarrow> Inl e
         | Inr base_date \<Rightarrow>
             if date_ge base_date (2024, 8, 6) then Inr True
             else check_o1 strptime model_name)
      else check_o1 strptime model_name)"

definition check_structured_output_support ::
    "(string \<Rightarrow> date option) \<Rightarrow> string \<Rightarrow> exn + bool" where
  "check_structured_output_support strptime model =
     (let model_name = lower model in
      if model_name = ''gpt-4o-mini'' then Inr True
      else if sublist ''gpt-4o-mini-'' model_name then
        (case dated_suffix strptime ''gpt-4o-mini-'' model_name of
           Inl e \<Rightarrow> Inl e
         | Inr mini_date \<Rightarrow> Inl TypeError)
      else check_gpt_4o strptime model_name)"

section \<open>Requests, responses and the status tracker\<close>

text \<open>
  Modelled from the spec: \<^verbatim>\<open>GenericRequest\<close>, \<^verbatim>\<open>GenericResponse\<close>,
  \<^verbatim>\<open>TokenUsage\<close> and the status trackers are declared outside the files at hand.
  The records hold the fields the spec lists and the code reads or writes. Python's
  \<^verbatim>\<open>None\<close> is \<open>JNull\<close> in a field that holds a JSON value and \<open>None\<close>
  in an optional one. A token usage is of type \<open>'u\<close> and a cost of type \<open>'c\<close>.
  Counters are Python integers, so \<open>int\<close>; a reading of the clock is a \<open>real\<close>.
\<close>

record generic_request =
  original_row_idx :: int

record ('u, 'c) generic_response =
  response_message :: json
  response_errors :: "string list option"
  raw_request :: json
  raw_response :: json
  generic_request :: generic_request
  created_at :: real
  finished_at :: real
  token_usage :: "'u option"
  response_cost :: "'c option"

text \<open>
  \<^verbatim>\<open>APIRequest\<close>, without its \<^verbatim>\<open>prompt_formatter\<close>, which no function here reads.
\<close>

record api_request =
  task_id :: int
  generic_request :: generic_request
  api_specific_request :: json
  result :: "string list"
  created_at :: real

record status_tracker =
  num_tasks_started :: int
  num_tasks_in_progress :: int
  num_tasks_succeeded :: int
  num_tasks_failed :: int
  num_api_errors :: int
  num_rate_limit_errors :: int
  num_other_errors :: int
  time_of_last_rate_limit_error :: real

section \<open>The online processor\<close>

subsection \<open>Token estimate\<close>

text \<open>
  \<^verbatim>\<open>estimate_output_tokens\<close>: \<open>max_tokens\<close> is what
  \<^verbatim>\<open>litellm.get_max_tokens(model=self.config.model)\<close> returns, \<open>None\<close> where the
  lookup (or the division of its result) raises.
\<close>

definition estimate_output_tokens :: "int option \<Rightarrow> int" where
  "estimate_output_tokens max_tokens =
     (case max_tokens of Some n \<Rightarrow> n div 4 | None \<Rightarrow> 0)"

text \<open>
  \<^verbatim>\<open>estimate_total_tokens\<close>. A message is a dictionary, read through
  \<^verbatim>\<open>message.items()\<close>. \<open>encode s\<close> is
  \<^verbatim>\<open>self.token_encoding.encode(s, disallowed_special=())\<close>, \<open>None\<close> where it raises
  \<^verbatim>\<open>TypeError\<close>; \<open>str\<close> is Python's \<^verbatim>\<open>str\<close>. The inner loop and the outer loop
  thread \<open>num_tokens\<close>.
\<close>

type_synonym message = "(string \<times> json) list"

fun count_items ::
    "(string \<Rightarrow> nat list option) \<Rightarrow> (json \<Rightarrow> string) \<Rightarrow> int \<Rightarrow> message \<Rightarrow> int" where
  "count_items encode str num_tokens [] = num_tokens"
| "count_items encode str num_tokens ((key, val) # items) =
     (let n1 = num_tokens +
                 (case encode (str val) of
                    Some tokens \<Rightarrow> int (length tokens)
                  | None \<Rightarrow> int (length (str val)) div 4);
          n2 = (if key = ''name'' then n1 - 1 else n1)
      in count_items encode str n2 items)"

fun count_messages ::
    "(string \<Rightarrow> nat list option) \<Rightarrow> (json \<Rightarrow> string) \<Rightarrow> int \<Rightarrow> message list \<Rightarrow> int" where
  "count_messages encode str num_tokens [] = num_tokens"
| "count_messages encode str num_tokens (message # messages) =
     count_messages encode str (count_items encode str (num_tokens + 4) message) messages"

definition estimate_total_tokens ::
    "(string \<Rightarrow> nat list option) \<Rightarrow> (json \<Rightarrow> string) \<Rightarrow> int option \<Rightarrow> message list \<Rightarrow> int" where
  "estimate_total_tokens encode str max_tokens messages =
     (let num_tokens = count_messages encode str 0 messages;
          num_tokens = num_tokens + 2;
          output_tokens = estimate_output_tokens max_tokens
      in num_tokens + output_tokens)"

subsection \<open>Reading a decoded response\<close>

text \<open>
  \<open>bind\<close> passes an exception on. \<open>py_in k v\<close> is \<^verbatim>\<open>k in v\<close> for a string
  \<open>k\<close>: a key of a dictionary, an element of a list, a substring of a string, and
  \<^verbatim>\<open>TypeError\<close> on anything else. \<open>getitem v k\<close> is \<^verbatim>\<open>v[k]\<close> for a string
  \<open>k\<close>, \<open>getitem0 v\<close> is \<^verbatim>\<open>v[0]\<close>.
\<close>

definition bind :: "exn + 'a \<Rightarrow> ('a \<Rightarrow> exn + 'b) \<Rightarrow> exn + 'b" where
  "bind m f = (case m of Inl e \<Rightarrow> Inl e | Inr x \<Rightarrow> f x)"

fun py_in :: "string \<Rightarrow> json \<Rightarrow> exn + bool" where
  "py_in k (JObj kvs) = Inr (map_of kvs k \<noteq> None)"
| "py_in k (JArr xs) = Inr (JStr k \<in> set xs)"
| "py_in k (JStr s) = Inr (sublist k s)"
| "py_in k _ = Inl TypeError"

fun getitem :: "json \<Rightarrow> string \<Rightarrow> exn + json" where
  "getitem (JObj kvs) k = (case map_of kvs k of None \<Rightarrow> Inl KeyError | Some v \<Rightarrow> Inr v)"
| "getitem _ k = Inl TypeError"

fun getitem0 :: "json \<Rightarrow> exn + json" where
  "getitem0 (JArr []) = Inl IndexError"
| "getitem0 (JArr (x # _)) = Inr x"
| "getitem0 (JStr []) = Inl IndexError"
| "getitem0 (JStr (c # _)) = Inr (JStr [c])"
| "getitem0 (JObj kvs) = Inl KeyError"
| "getitem0 _ = Inl TypeError"

text \<open>
  \<^verbatim>\<open>"rate limit" in error.get("message", "").lower()\<close>: \<^verbatim>\<open>AttributeError\<close> when
  \<open>error\<close> is no dictionary or its message no string.
\<close>

fun is_rate_limit :: "json \<Rightarrow> exn + bool" where
  "is_rate_limit (JObj kvs) =
     (case (case map_of kvs ''message'' of None \<Rightarrow> JStr [] | Some v \<Rightarrow> v) of
        JStr m \<Rightarrow> Inr (sublist ''rate limit'' (lower m))
      | _ \<Rightarrow> Inl AttributeError)"
| "is_rate_limit _ = Inl AttributeError"

text \<open>
  \<^verbatim>\<open>response["choices"][0]["message"]["content"]\<close>, and the
  \<^verbatim>\<open>TokenUsage(...)\<close> built from \<^verbatim>\<open>response["usage"]\<close>. The constructor
  \<open>TokenUsage\<close> and the mixin's \<open>completion_cost\<close> are parameters that may raise.
\<close>

definition first_choice_content :: "json \<Rightarrow> exn + json" where
  "first_choice_content response =
     bind (getitem response ''choices'') (\<lambda>choices.
     bind (getitem0 choices) (\<lambda>choice.
     bind (getitem choice ''message'') (\<lambda>message.
     getitem message ''content'')))"

definition usage_of :: "(json \<Rightarrow> json \<Rightarrow> json \<Rightarrow> exn + 'u) \<Rightarrow> json \<Rightarrow> exn + 'u" where
  "usage_of TokenUsage response =
     bind (getitem response ''usage'') (\<lambda>usage.
     bind (getitem usage ''prompt_tokens'') (\<lambda>prompt_tokens.
     bind (getitem usage ''completion_tokens'') (\<lambda>completion_tokens.
     bind (getitem usage ''total_tokens'') (\<lambda>total_tokens.
     TokenUsage prompt_tokens completion_tokens total_tokens))))"

subsection \<open>One call\<close>

text \<open>
  \<^verbatim>\<open>call_single_request\<close>. \<open>reply\<close> is what the POST brings back: the HTTP status
  and the decoded body, or \<open>None\<close> when the POST or the decoding raises.
  \<open>time_now\<close> is \<^verbatim>\<open>time.time()\<close> and \<open>datetime_now\<close> is
  \<^verbatim>\<open>datetime.datetime.now()\<close>. The tracker is mutated in place by the source and is
  returned here, also when the call raises. \<open>on_error\<close> is the body of
  \<^verbatim>\<open>if "error" in response\<close>, which always raises.

  \<^verbatim>\<open>GenericResponse(...)\<close> is a validating constructor, declared outside the files
  at hand: it raises \<^verbatim>\<open>ValidationError\<close> on field values its declaration does not
  accept, and otherwise builds the response from the fields as they are given.
  \<open>validates\<close> is that check, a parameter.
\<close>

definition on_error :: "real \<Rightarrow> json \<Rightarrow> status_tracker \<Rightarrow> exn \<times> status_tracker" where
  "on_error time_now response status_tracker =
     (let st1 = status_tracker\<lparr>num_api_errors := num_api_errors status_tracker + 1\<rparr> in
      case getitem response ''error'' of
        Inl e \<Rightarrow> (e, st1)
      | Inr error \<Rightarrow>
          (case is_rate_limit error of
             Inl e \<Rightarrow> (e, st1)
           | Inr True \<Rightarrow>
               (let st2 = st1\<lparr>time_of_last_rate_limit_error := time_now\<rparr>;
                    st3 = st2\<lparr>num_rate_limit_errors := num_rate_limit_errors st2 + 1\<rparr>;
                    st4 = st3\<lparr>num_api_errors := num_api_errors st3 - 1\<rparr>;
                    st5 = st4\<lparr>num_other_errors := num_other_errors st4 - 1\<rparr>
                in (APIError error, st5))
           | Inr False \<Rightarrow> (APIError error, st1)))"

definition build_response ::
    "(json \<Rightarrow> json \<Rightarrow> json \<Rightarrow> exn + 'u) \<Rightarrow> (json \<Rightarrow> exn + 'c)
      \<Rightarrow> (('u, 'c) generic_response \<Rightarrow> bool) \<Rightarrow> real \<Rightarrow> json \<Rightarrow> api_request
      \<Rightarrow> exn + ('u, 'c) generic_response" where
  "build_response TokenUsage completion_cost validates datetime_now response request =
     bind (first_choice_content response) (\<lambda>content.
     bind (usage_of TokenUsage response) (\<lambda>usage.
     bind (completion_cost response) (\<lambda>cost.
     (let generic_response =
            \<lparr> response_message = content,
              response_errors = None,
              raw_request = api_specific_request request,
              raw_response = response,
              generic_response.generic_request = generic_request request,
              generic_response.created_at = created_at request,
              finished_at = datetime_now,
              token_usage = Some usage,
              response_cost = Some cost \<rparr>
      in if validates generic_response then Inr generic_response
         else Inl ValidationError))))"

definition call_single_request ::
    "(json \<Rightarrow> json \<Rightarrow> json \<Rightarrow> exn + 'u) \<Rightarrow> (json \<Rightarrow> exn + 'c)
      \<Rightarrow> (('u, 'c) generic_response \<Rightarrow> bool) \<Rightarrow> real \<Rightarrow> real
      \<Rightarrow> (int \<times> json) option \<Rightarrow> api_request \<Rightarrow> status_tracker
      \<Rightarrow> (exn + ('u, 'c) generic_response) \<times> status_tracker" where
  "call_single_request TokenUsage completion_cost validates time_now datetime_now reply request
       status_tracker =
     (case reply of
        None \<Rightarrow> (Inl TransportError, status_tracker)
      | Some (status, response) \<Rightarrow>
          (case py_in ''error'' response of
             Inl e \<Rightarrow> (Inl e, status_tracker)
           | Inr True \<Rightarrow>
               (case on_error time_now response status_tracker of (e, st) \<Rightarrow> (Inl e, st))
           | Inr False \<Rightarrow>
               if status \<noteq> 200 then (Inl (RequestFailed status response), status_tracker)
               else (build_response TokenUsage completion_cost validates datetime_now response
                       request,
                     status_tracker)))"

section \<open>The offline processor\<close>

text \<open>
  The file system maps a path to the contents of the file there, a string; a path with
  no file maps to \<open>None\<close>. Files are opened in text mode on a system whose line
  separator is the line feed: writing leaves the text as it is, and reading turns
  \<^verbatim>\<open>\r\n\<close> and \<^verbatim>\<open>\r\<close> into a line feed. \<^verbatim>\<open>for line in file\<close> yields the
  lines of what is read, each with its line feed, the last one without when the file does
  not end in one. \<^verbatim>\<open>input()\<close> takes the next line of \<open>stdin\<close> and raises
  \<^verbatim>\<open>EOFError\<close> when there is none.
\<close>

definition LF :: char where
  "LF = CHR 0x0A"

definition CR :: char where
  "CR = CHR 0x0D"

fun universal_newlines :: "string \<Rightarrow> string" where
  "universal_newlines [] = []"
| "universal_newlines [c] = (if c = CR then [LF] else [c])"
| "universal_newlines (c # d # cs) =
     (if c = CR \<and> d = LF then LF # universal_newlines cs
      else if c = CR then LF # universal_newlines (d # cs)
      else c # universal_newlines (d # cs))"

fun lines_of :: "string \<Rightarrow> string list" where
  "lines_of [] = []"
| "lines_of (c # cs) =
     (if c = LF then [c] # lines_of cs
      else (case lines_of cs of [] \<Rightarrow> [[c]] | l # ls \<Rightarrow> (c # l) # ls))"

definition read_lines :: "string \<Rightarrow> string list" where
  "read_lines content = lines_of (universal_newlines content)"

record world =
  files :: "string \<rightharpoonup> string"
  stdin :: "string list"

text \<open>
  What a run of a function comes to: it raises, it returns early through
  \<^verbatim>\<open>return\<close>, or it runs to its end.
\<close>

datatype 'a outcome = Raised exn | Aborted | Finished 'a

text \<open>
  The collaborators of \<^verbatim>\<open>process_requests_from_file\<close>, all of them outside the class:
  \<^verbatim>\<open>GenericResponse.model_validate_json\<close> and \<^verbatim>\<open>GenericRequest.model_validate_json\<close>
  (\<open>None\<close> where they raise), the subclass's \<^verbatim>\<open>create_api_specific_request\<close> and
  \<^verbatim>\<open>process_requests\<close> (the base class leaves its body empty), and
  \<^verbatim>\<open>json.dumps(response.model_dump(), default=str)\<close>.
  \<open>clock i\<close> is the \<^verbatim>\<open>datetime.datetime.now()\<close> that dates the request built from
  line \<open>i\<close> of the request file.
\<close>

record ('u, 'c) processor =
  response_validate_json :: "string \<Rightarrow> ('u, 'c) generic_response option"
  request_validate_json :: "string \<Rightarrow> generic_request option"
  create_api_specific_request :: "generic_request \<Rightarrow> json"
  process_requests :: "api_request list \<Rightarrow> ('u, 'c) generic_response list"
  dumps :: "('u, 'c) generic_response \<Rightarrow> string"
  clock :: "nat \<Rightarrow> real"

text \<open>
  \<^verbatim>\<open>if response.response_errors:\<close> holds for a list that is not empty.
\<close>

definition truthy :: "string list option \<Rightarrow> bool" where
  "truthy errors = (case errors of None \<Rightarrow> False | Some es \<Rightarrow> es \<noteq> [])"

text \<open>
  The loop of the \<^verbatim>\<open>resume\<close> branch over the lines of the save file. It threads
  \<^verbatim>\<open>completed_request_ids\<close>, the text written to the temporary file and
  \<^verbatim>\<open>num_previously_failed_requests\<close>, and stops at a line that does not validate; what was
  written up to there stays written.
\<close>

fun resume_scan ::
    "('u, 'c) processor \<Rightarrow> string list \<Rightarrow> int set \<times> string \<times> nat
      \<Rightarrow> exn option \<times> int set \<times> string \<times> nat" where
  "resume_scan self [] acc = (None, acc)"
| "resume_scan self (line # lines) (completed_request_ids, output_file, num_failed) =
     (case response_validate_json self line of
        None \<Rightarrow> (Some ValidationError, completed_request_ids, output_file, num_failed)
      | Some response \<Rightarrow>
          (let num_failed1 =
                 (if truthy (response_errors response) then num_failed + 1 else num_failed)
           in if response_message response = JNull
              then resume_scan self lines (completed_request_ids, output_file, num_failed1 + 1)
              else resume_scan self lines
                     (insert (original_row_idx (generic_response.generic_request response))
                        completed_request_ids,
                      output_file @ line, num_failed1)))"

text \<open>
  The loop of the \<^verbatim>\<open>resume_no_retry\<close> branch: it only reads.
\<close>

fun no_retry_scan ::
    "('u, 'c) processor \<Rightarrow> string list \<Rightarrow> int set \<times> nat \<Rightarrow> exn + int set \<times> nat" where
  "no_retry_scan self [] acc = Inr acc"
| "no_retry_scan self (line # lines) (completed_request_ids, num_failed) =
     (case response_validate_json self line of
        None \<Rightarrow> Inl ValidationError
      | Some response \<Rightarrow>
          (let num_failed1 =
                 (if truthy (response_errors response) then num_failed + 1 else num_failed)
           in no_retry_scan self lines
                (insert (original_row_idx (generic_response.generic_request response))
                   completed_request_ids,
                 num_failed1)))"

text \<open>
  The first half of \<^verbatim>\<open>process_requests_from_file\<close>, from
  \<^verbatim>\<open>completed_request_ids = set()\<close> to the end of \<^verbatim>\<open>if os.path.exists(save_filepath)\<close>.
  It finishes with \<^verbatim>\<open>completed_request_ids\<close>. \<^verbatim>\<open>os.replace\<close> moves the temporary
  file over the save file.
\<close>

definition load_completed ::
    "('u, 'c) processor \<Rightarrow> string \<Rightarrow> bool \<Rightarrow> bool \<Rightarrow> world \<Rightarrow> int set outcome \<times> world" where
  "load_completed self save_filepath resume resume_no_retry w =
     (case files w save_filepath of
        None \<Rightarrow> (Finished {}, w)
      | Some content \<Rightarrow>
          if resume then
            (let temp_filepath = save_filepath @ ''.temp'' in
             case resume_scan self (read_lines content) ({}, [], 0) of
               (Some e, completed_request_ids, output_file, num_failed) \<Rightarrow>
                 (Raised e, w\<lparr>files := (files w)(temp_filepath \<mapsto> output_file)\<rparr>)
             | (None, completed_request_ids, output_file, num_failed) \<Rightarrow>
                 (Finished completed_request_ids,
                  w\<lparr>files := (files w)(temp_filepath := None, save_filepath \<mapsto> output_file)\<rparr>))
          else if resume_no_retry then
            (case no_retry_scan self (read_lines content) ({}, 0) of
               Inl e \<Rightarrow> (Raised e, w)
             | Inr (completed_request_ids, num_failed) \<Rightarrow> (Finished completed_request_ids, w))
          else
            (case stdin w of
               [] \<Rightarrow> (Raised EOFError, w)
             | user_input # rest \<Rightarrow>
                 if lower user_input \<noteq> ''y'' \<and> lower user_input \<noteq> ''''
                 then (Aborted, w\<lparr>stdin := rest\<rparr>)
                 else (Finished {}, w\<lparr>stdin := rest\<rparr>)))"

text \<open>
  The loop over the request file: a request whose row is not in
  \<^verbatim>\<open>completed_request_ids\<close> is appended to \<^verbatim>\<open>requests\<close>.
\<close>

fun build_requests ::
    "('u, 'c) processor \<Rightarrow> int set \<Rightarrow> nat \<Rightarrow> api_request list \<Rightarrow> string list
      \<Rightarrow> exn + api_request list" where
  "build_requests self completed_request_ids i requests [] = Inr requests"
| "build_requests self completed_request_ids i requests (line # lines) =
     (case request_validate_json self line of
        None \<Rightarrow> Inl ValidationError
      | Some request \<Rightarrow>
          if original_row_idx request \<notin> completed_request_ids
          then build_requests self completed_request_ids (Suc i)
                 (requests @
                    [\<lparr> task_id = original_row_idx request,
                       generic_request = request,
                       api_specific_request = create_api_specific_request self request,
                       result = [],
                       created_at = clock self i \<rparr>])
                 lines
          else build_requests self completed_request_ids (Suc i) requests lines)"

text \<open>
  \<^verbatim>\<open>open(save_filepath, "a")\<close> and one \<^verbatim>\<open>f.write(json_string + "\n")\<close> for each
  response: the file is created when it is not there, and the text goes to its end, right
  after what the file held, whether or not that ended in a line feed.
\<close>

definition response_lines :: "('u, 'c) processor \<Rightarrow> ('u, 'c) generic_response list \<Rightarrow> string" where
  "response_lines self responses = concat (map (\<lambda>response. dumps self response @ [LF]) responses)"

definition append_text :: "string \<Rightarrow> string \<Rightarrow> world \<Rightarrow> world" where
  "append_text path text w =
     w\<lparr>files := (files w)(path \<mapsto> (case files w path of None \<Rightarrow> [] | Some old \<Rightarrow> old) @ text)\<rparr>"

text \<open>
  \<^verbatim>\<open>process_requests_from_file\<close>. It finishes with the requests it passed to
  \<^verbatim>\<open>process_requests\<close>. Logging and the loading of the model change nothing that is
  modelled.
\<close>

definition process_requests_from_file ::
    "('u, 'c) processor \<Rightarrow> string \<Rightarrow> string \<Rightarrow> bool \<Rightarrow> bool \<Rightarrow> world
      \<Rightarrow> api_request list outcome \<times> world" where
  "process_requests_from_file self generic_request_filepath save_filepath resume resume_no_retry w =
     (case load_completed self save_filepath resume resume_no_retry w of
        (Raised e, w1) \<Rightarrow> (Raised e, w1)
      | (Aborted, w1) \<Rightarrow> (Aborted, w1)
      | (Finished completed_request_ids, w1) \<Rightarrow>
          (case files w1 generic_request_filepath of
             None \<Rightarrow> (Raised FileNotFoundError, w1)
           | Some content \<Rightarrow>
               (case build_requests self completed_request_ids 0 [] (read_lines content) of
                  Inl e \<Rightarrow> (Raised e, w1)
                | Inr requests \<Rightarrow>
                    (let responses = process_requests self requests
                     in (Finished requests,
                         append_text save_filepath (response_lines self responses) w1)))))"

section \<open>Fingerprinting\<close>




section \<open>Sample inputs\<close>

text \<open>
  A tracker, a request, a processor whose validators are tables from a line to what it
  decodes to, and a file system with a request file of four rows and a response log of
  three lines, each ended by a line feed: row 0 answered, row 1 failed with no message,
  row 2 answered with an error recorded.
\<close>

definition sample_tracker :: status_tracker where
  "sample_tracker =
     \<lparr> num_tasks_started = 3, num_tasks_in_progress = 1, num_tasks_succeeded = 2,
       num_tasks_failed = 0, num_api_errors = 0, num_rate_limit_errors = 0,
       num_other_errors = 0, time_of_last_rate_limit_error = 0 \<rparr>"

definition sample_request :: api_request where
  "sample_request =
     \<lparr> task_id = 7, generic_request = \<lparr> original_row_idx = 7 \<rparr>,
       api_specific_request = JObj [(''model'', JStr ''gpt-4o-mini'')],
       result = [], created_at = 10 \<rparr>"

definition sample_token_usage :: "json \<Rightarrow> json \<Rightarrow> json \<Rightarrow> exn + json list" where
  "sample_token_usage prompt_tokens completion_tokens total_tokens =
     Inr [prompt_tokens, completion_tokens, total_tokens]"

definition sample_cost :: "json \<Rightarrow> exn + nat" where
  "sample_cost response = Inr 0"

text \<open>
  A validator that takes a string, a dictionary or \<^verbatim>\<open>None\<close> as the message.
\<close>

definition sample_validates :: "(json list, nat) generic_response \<Rightarrow> bool" where
  "sample_validates response =
     (case response_message response of
        JStr s \<Rightarrow> True
      | JObj kvs \<Rightarrow> True
      | JNull \<Rightarrow> True
      | _ \<Rightarrow> False)"

definition rate_limit_body :: json where
  "rate_limit_body =
     JObj [(''error'', JObj [(''message'', JStr ''Rate limit reached for requests'')])]"

definition success_body :: json where
  "success_body =
     JObj [(''choices'', JArr [JObj [(''message'', JObj [(''content'', JStr ''42'')])]]),
           (''usage'', JObj [(''prompt_tokens'', JNum 5), (''completion_tokens'', JNum 1),
                             (''total_tokens'', JNum 6)])]"

definition sample_response :: "json \<Rightarrow> string list option \<Rightarrow> int \<Rightarrow> (json list, nat) generic_response" where
  "sample_response message errors idx =
     \<lparr> response_message = message, response_errors = errors, raw_request = JNull,
       raw_response = JNull, generic_request = \<lparr> original_row_idx = idx \<rparr>,
       created_at = 0, finished_at = 0, token_usage = None, response_cost = None \<rparr>"

text \<open>
  The validators of the sample processor look a line up by its text before the line feed.
\<close>

definition sample_processor :: "(json list, nat) processor" where
  "sample_processor =
     \<lparr> response_validate_json =
         (\<lambda>line. map_of
            [(''ok-0'', sample_response (JStr ''answer'') None 0),
             (''failed-1'', sample_response JNull (Some [''timeout'']) 1),
             (''answered-with-error-2'', sample_response (JStr ''answer'') (Some [''timeout'']) 2)]
            (takeWhile (\<lambda>c. c \<noteq> LF) line)),
       request_validate_json =
         (\<lambda>line. map_of
            [(''request-0'', \<lparr> original_row_idx = 0 \<rparr>),
             (''request-1'', \<lparr> original_row_idx = 1 \<rparr>),
             (''request-2'', \<lparr> original_row_idx = 2 \<rparr>),
             (''request-3'', \<lparr> original_row_idx = 3 \<rparr>)]
            (takeWhile (\<lambda>c. c \<noteq> LF) line)),
       create_api_specific_request = (\<lambda>request. JObj [(''row'', JNum (original_row_idx request))]),
       process_requests = map (\<lambda>request. sample_response (JStr ''new answer'') None (task_id request)),
       dumps = (\<lambda>response.
                  case map_of [(0, ''new-0''), (1, ''new-1''), (2, ''new-2''), (3, ''new-3'')]
                         (original_row_idx (generic_response.generic_request response)) of
                    Some line \<Rightarrow> line
                  | None \<Rightarrow> ''new''),
       clock = real \<rparr>"

definition sample_world :: "string list \<Rightarrow> world" where
  "sample_world input =
     \<lparr> files =
         [''requests.jsonl'' \<mapsto>
            ''request-0'' @ [LF] @ ''request-1'' @ [LF] @ ''request-2'' @ [LF] @ ''request-3'' @ [LF],
          ''responses.jsonl'' \<mapsto>
            ''ok-0'' @ [LF] @ ''failed-1'' @ [LF] @ ''answered-with-error-2'' @ [LF]],
       stdin = input \<rparr>"



section \<open>Properties\<close>

subsection \<open>Strings\<close>

lemma lower_char_y: "lower_char c = CHR ''y'' \<longleftrightarrow> c = CHR ''y'' \<or> c = CHR ''Y''"
  by (simp add: lower_char_def)

lemma lower_y: "lower s = ''y'' \<longleftrightarrow> s = ''y'' \<or> s = ''Y''"
  by (cases s) (auto simp: lower_def lower_char_y)

lemma lower_empty: "lower s = [] \<longleftrightarrow> s = []"
  by (simp add: lower_def)

lemma lower_append: "lower (s @ t) = lower s @ lower t"
  by (simp add: lower_def)

lemma split_from_not_empty: "split_from sep acc s \<noteq> []"
  by (induction sep acc s rule: split_from.induct) auto

lemma split_prefix:
  assumes "sep \<noteq> []"
  shows "split sep (sep @ r) = [] # split sep r"
proof -
  obtain c cs where sep: "sep = c # cs"
    using assms by (cases sep) auto
  have "split_from sep [] ((c # cs) @ r) = rev [] # split_from sep [] (drop (length sep) ((c # cs) @ r))"
    unfolding append_Cons by (subst split_from.simps) (simp add: sep)
  then show ?thesis
    by (simp add: split_def sep)
qed

subsection \<open>Structured output support\<close>

lemma dated_suffix_prefix:
  assumes "sep \<noteq> []"
  shows "dated_suffix strptime sep (sep @ r) = Inl ValueError
       \<or> (\<exists>t. dated_suffix strptime sep (sep @ r) = Inr t)"
proof -
  obtain d ds where "split sep r = d # ds"
    using split_from_not_empty [of sep "[]" r] by (cases "split sep r") (auto simp: split_def)
  then show ?thesis
    by (cases "strptime d") (auto simp: dated_suffix_def split_prefix [OF assms])
qed

text \<open>
  C10. For every model name \<^verbatim>\<open>gpt-4o-mini-<date>\<close> the check raises and returns no
  boolean: \<^verbatim>\<open>ValueError\<close> when the date does not parse, and otherwise the
  \<^verbatim>\<open>TypeError\<close> of calling the \<^verbatim>\<open>datetime\<close> module. For the undated names
  \<^verbatim>\<open>gpt-4o-mini\<close>, \<^verbatim>\<open>gpt-4o\<close> and \<^verbatim>\<open>o1\<close> it returns True.
\<close>

theorem check_structured_output_support_mini_dated_raises:
  "(check_structured_output_support strptime (''gpt-4o-mini-'' @ date) = Inl ValueError
      \<or> check_structured_output_support strptime (''gpt-4o-mini-'' @ date) = Inl TypeError)
   \<and> check_structured_output_support strptime ''gpt-4o-mini'' = Inr True
   \<and> check_structured_output_support strptime ''gpt-4o'' = Inr True
   \<and> check_structured_output_support strptime ''o1'' = Inr True"
proof -
  let ?sep = "''gpt-4o-mini-''"
  have low: "lower (?sep @ date) = ?sep @ lower date"
    by (simp add: lower_append) (simp add: lower_def lower_char_def)
  have sub: "sublist ?sep (?sep @ lower date)"
    by (rule prefix_imp_sublist) simp
  have ne: "?sep @ lower date \<noteq> ''gpt-4o-mini''"
    by simp
  have "dated_suffix strptime ?sep (?sep @ lower date) = Inl ValueError
      \<or> (\<exists>t. dated_suffix strptime ?sep (?sep @ lower date) = Inr t)"
    by (rule dated_suffix_prefix) simp
  then have dated: "check_structured_output_support strptime (?sep @ date) = Inl ValueError
      \<or> check_structured_output_support strptime (?sep @ date) = Inl TypeError"
    unfolding check_structured_output_support_def Let_def low
    using sub ne by auto
  have mini: "check_structured_output_support strptime ''gpt-4o-mini'' = Inr True"
    by (simp add: check_structured_output_support_def lower_def lower_char_def)
  have gpt: "check_structured_output_support strptime ''gpt-4o'' = Inr True"
    by (simp add: check_structured_output_support_def check_gpt_4o_def lower_def lower_char_def
        sublist_code)
  have o1: "check_structured_output_support strptime ''o1'' = Inr True"
    by (simp add: check_structured_output_support_def check_gpt_4o_def lower_def lower_char_def
        sublist_code)
  from dated mini gpt o1 show ?thesis by blast
qed

subsection \<open>Token estimate\<close>

lemma count_items_sum:
  "count_items encode str n items =
     n + (\<Sum>(key, val)\<leftarrow>items.
            (case encode (str val) of
               Some tokens \<Rightarrow> int (length tokens)
             | None \<Rightarrow> int (length (str val)) div 4)
            - (if key = ''name'' then 1 else 0))"
  by (induction items arbitrary: n) (auto simp: Let_def)

lemma count_messages_sum:
  "count_messages encode str n messages =
     n + (\<Sum>message\<leftarrow>messages. 4 + count_items encode str 0 message)"
proof (induction messages arbitrary: n)
  case Nil
  show ?case by simp
next
  case (Cons message messages)
  have "count_items encode str (n + 4) message = n + 4 + count_items encode str 0 message"
    by (simp add: count_items_sum [of _ _ "n + 4"] count_items_sum [of _ _ 0])
  then show ?case
    by (simp add: Cons.IH)
qed

text \<open>
  C3, as the claim states it, fails: for a model whose maximum is 4096 output tokens, the
  estimate for one short user message is 1036, less than the worst-case completion alone.
\<close>

theorem estimate_total_tokens_below_worst_case:
  "estimate_total_tokens (\<lambda>s. Some (map of_char s)) (\<lambda>v. case v of JStr s \<Rightarrow> s | _ \<Rightarrow> [])
      (Some 4096) [[(''role'', JStr ''user''), (''content'', JStr ''hi'')]] = 1036
   \<and> (1036 :: int) < 4096"
  by (simp add: estimate_total_tokens_def estimate_output_tokens_def)

text \<open>
  C3, amended. The estimate is the count of the messages (4 for each message, the encoded
  length of each value, or a quarter of its length in characters when the encoder raises,
  one less for each \<^verbatim>\<open>name\<close> key, and 2 for the reply's priming) plus a quarter,
  rounded down, of the model's maximum tokens, or plus 0 when that lookup raises.
\<close>

theorem estimate_total_tokens_closed_form:
  "estimate_total_tokens encode str max_tokens messages =
     (\<Sum>message\<leftarrow>messages.
        4 + (\<Sum>(key, val)\<leftarrow>message.
               (case encode (str val) of
                  Some tokens \<Rightarrow> int (length tokens)
                | None \<Rightarrow> int (length (str val)) div 4)
               - (if key = ''name'' then 1 else 0)))
     + 2
     + (case max_tokens of Some n \<Rightarrow> n div 4 | None \<Rightarrow> 0)"
  by (simp add: estimate_total_tokens_def estimate_output_tokens_def Let_def
      count_messages_sum count_items_sum [of _ _ 0])

subsection \<open>One call\<close>

lemma on_error_cases:
  "on_error time_now response st = (e, st') \<Longrightarrow>
     st' = st\<lparr>num_api_errors := num_api_errors st + 1\<rparr>
   \<or> st' = st\<lparr>time_of_last_rate_limit_error := time_now,
               num_rate_limit_errors := num_rate_limit_errors st + 1,
               num_other_errors := num_other_errors st - 1\<rparr>"
  by (auto simp: on_error_def Let_def split: sum.splits bool.splits)

lemma call_single_request_tracker_cases:
  assumes "call_single_request TokenUsage completion_cost validates time_now datetime_now reply request st = (res, st')"
  shows "st' = st
       \<or> st' = st\<lparr>num_api_errors := num_api_errors st + 1\<rparr>
       \<or> st' = st\<lparr>time_of_last_rate_limit_error := time_now,
               num_rate_limit_errors := num_rate_limit_errors st + 1,
               num_other_errors := num_other_errors st - 1\<rparr>"
  using assms
  by (auto simp: call_single_request_def
      split: option.splits sum.splits bool.splits prod.splits if_splits
      dest: on_error_cases)

text \<open>
  C2, as the claim states it, fails: a call that meets a rate-limit error leaves
  \<^verbatim>\<open>num_other_errors\<close> one lower than it found it.
\<close>

theorem call_single_request_decreases_other_errors:
  "num_other_errors
     (snd (call_single_request sample_token_usage sample_cost sample_validates 100 101
             (Some (429, rate_limit_body)) sample_request sample_tracker))
   < num_other_errors sample_tracker"
  by (simp add: call_single_request_def on_error_def Let_def rate_limit_body_def
      sample_tracker_def lower_def lower_char_def sublist_code)

text \<open>
  C2, amended. A call leaves the task counters as they are, never decreases
  \<^verbatim>\<open>num_api_errors\<close> or \<^verbatim>\<open>num_rate_limit_errors\<close>, and raises at most one of the
  two, by one. \<^verbatim>\<open>num_other_errors\<close> goes down by one exactly when
  \<^verbatim>\<open>num_rate_limit_errors\<close> goes up: the source takes one off for the one its caller
  will add.
\<close>

theorem call_single_request_counters:
  assumes "call_single_request TokenUsage completion_cost validates time_now datetime_now reply request st = (res, st')"
  shows "num_tasks_started st' = num_tasks_started st
       \<and> num_tasks_in_progress st' = num_tasks_in_progress st
       \<and> num_tasks_succeeded st' = num_tasks_succeeded st
       \<and> num_tasks_failed st' = num_tasks_failed st
       \<and> num_api_errors st \<le> num_api_errors st'
       \<and> num_rate_limit_errors st \<le> num_rate_limit_errors st'
       \<and> (num_api_errors st' - num_api_errors st)
           + (num_rate_limit_errors st' - num_rate_limit_errors st) \<le> 1
       \<and> num_other_errors st' =
           num_other_errors st - (num_rate_limit_errors st' - num_rate_limit_errors st)"
  using call_single_request_tracker_cases [OF assms] by auto

theorem call_single_request_counters_witness:
  "call_single_request sample_token_usage sample_cost sample_validates 100 101
       (Some (429, rate_limit_body)) sample_request sample_tracker
     = (Inl (APIError (JObj [(''message'', JStr ''Rate limit reached for requests'')])),
        sample_tracker\<lparr>time_of_last_rate_limit_error := 100, num_rate_limit_errors := 1,
                       num_other_errors := - 1\<rparr>)
   \<and> num_api_errors sample_tracker
       \<le> num_api_errors (sample_tracker\<lparr>time_of_last_rate_limit_error := 100,
             num_rate_limit_errors := 1, num_other_errors := - 1\<rparr>)
   \<and> num_other_errors (sample_tracker\<lparr>time_of_last_rate_limit_error := 100,
             num_rate_limit_errors := 1, num_other_errors := - 1\<rparr>)
       = num_other_errors sample_tracker - 1"
proof -
  have run: "call_single_request sample_token_usage sample_cost sample_validates 100 101
       (Some (429, rate_limit_body)) sample_request sample_tracker
     = (Inl (APIError (JObj [(''message'', JStr ''Rate limit reached for requests'')])),
        sample_tracker\<lparr>time_of_last_rate_limit_error := 100, num_rate_limit_errors := 1,
                       num_other_errors := - 1\<rparr>)"
    by (simp add: call_single_request_def on_error_def Let_def rate_limit_body_def
        sample_tracker_def lower_def lower_char_def sublist_code)
  from call_single_request_counters [OF run] run show ?thesis
    by (simp add: sample_tracker_def)
qed

text \<open>
  C7. When the decoded response is a dictionary whose \<^verbatim>\<open>error\<close> is a dictionary with a
  message that contains \<^verbatim>\<open>rate limit\<close> in any mix of cases, the call raises, sets
  \<^verbatim>\<open>time_of_last_rate_limit_error\<close> to the current time and adds one to
  \<^verbatim>\<open>num_rate_limit_errors\<close>; \<^verbatim>\<open>num_api_errors\<close> ends as it began.
\<close>

theorem call_single_request_rate_limit:
  assumes "reply = Some (status, JObj kvs)"
    and "map_of kvs ''error'' = Some (JObj ekvs)"
    and "map_of ekvs ''message'' = Some (JStr m)"
    and "sublist ''rate limit'' (lower m)"
  shows "call_single_request TokenUsage completion_cost validates time_now datetime_now reply request st =
           (Inl (APIError (JObj ekvs)),
            st\<lparr>time_of_last_rate_limit_error := time_now,
               num_rate_limit_errors := num_rate_limit_errors st + 1,
               num_other_errors := num_other_errors st - 1\<rparr>)"
  using assms by (simp add: call_single_request_def on_error_def Let_def)

theorem call_single_request_rate_limit_witness:
  "sublist ''rate limit'' (lower ''Rate Limit reached'')
   \<and> call_single_request sample_token_usage sample_cost sample_validates 100 101
       (Some (429, JObj [(''error'', JObj [(''message'', JStr ''Rate Limit reached'')])]))
       sample_request sample_tracker
     = (Inl (APIError (JObj [(''message'', JStr ''Rate Limit reached'')])),
        sample_tracker\<lparr>time_of_last_rate_limit_error := 100,
           num_rate_limit_errors := num_rate_limit_errors sample_tracker + 1,
           num_other_errors := num_other_errors sample_tracker - 1\<rparr>)"
proof -
  have sub: "sublist ''rate limit'' (lower ''Rate Limit reached'')"
    by (simp add: lower_def lower_char_def sublist_code)
  show ?thesis
    using sub
      call_single_request_rate_limit [OF refl _ _ sub,
        of "[(''error'', JObj [(''message'', JStr ''Rate Limit reached'')])]"
           "[(''message'', JStr ''Rate Limit reached'')]"
           sample_token_usage sample_cost sample_validates 100 101 429 sample_request
           sample_tracker]
    by simp
qed

text \<open>
  An error that is no rate-limit error is counted in \<^verbatim>\<open>num_api_errors\<close> alone.
\<close>

lemma call_single_request_other_error:
  assumes "reply = Some (status, JObj kvs)"
    and "map_of kvs ''error'' = Some (JObj ekvs)"
    and "map_of ekvs ''message'' = Some (JStr m)"
    and "\<not> sublist ''rate limit'' (lower m)"
  shows "call_single_request TokenUsage completion_cost validates time_now datetime_now reply request st =
           (Inl (APIError (JObj ekvs)), st\<lparr>num_api_errors := num_api_errors st + 1\<rparr>)"
  using assms by (simp add: call_single_request_def on_error_def Let_def)

lemma bind_Inr: "bind m f = Inr y \<longleftrightarrow> (\<exists>x. m = Inr x \<and> f x = Inr y)"
  by (cases m) (simp_all add: bind_def)

lemma build_response_Inr:
  "build_response TokenUsage completion_cost validates datetime_now response request = Inr r \<longleftrightarrow>
     (\<exists>content usage cost.
        first_choice_content response = Inr content
      \<and> usage_of TokenUsage response = Inr usage
      \<and> completion_cost response = Inr cost
      \<and> validates r
      \<and> r = \<lparr> response_message = content, response_errors = None,
              raw_request = api_specific_request request, raw_response = response,
              generic_response.generic_request = generic_request request,
              generic_response.created_at = created_at request,
              finished_at = datetime_now, token_usage = Some usage,
              response_cost = Some cost \<rparr>)"
  by (auto simp: build_response_def bind_Inr Let_def)

text \<open>
  C8, as the claim states it, fails: an empty dictionary has no \<^verbatim>\<open>error\<close> key and
  comes with status 200, and the call raises \<^verbatim>\<open>KeyError\<close> at
  \<^verbatim>\<open>response["choices"]\<close>.
\<close>

theorem call_single_request_raises_without_error_key:
  "py_in ''error'' (JObj []) = Inr False
   \<and> fst (call_single_request sample_token_usage sample_cost sample_validates 100 101
             (Some (200, JObj [])) sample_request sample_tracker) = Inl KeyError"
  by (simp add: call_single_request_def build_response_def first_choice_content_def bind_def)

text \<open>
  A well-shaped body whose content the constructor does not accept raises as well.
\<close>

lemma call_single_request_raises_on_invalid_content:
  "fst (call_single_request sample_token_usage sample_cost sample_validates 100 101
          (Some (200,
             JObj [(''choices'', JArr [JObj [(''message'', JObj [(''content'', JNum 42)])]]),
                   (''usage'', JObj [(''prompt_tokens'', JNum 5), (''completion_tokens'', JNum 1),
                                     (''total_tokens'', JNum 6)])]))
          sample_request sample_tracker) = Inl ValidationError"
  by (simp add: call_single_request_def build_response_def first_choice_content_def usage_of_def
      bind_def sample_token_usage_def sample_cost_def sample_validates_def)

text \<open>
  C8, amended. The call returns a response exactly when the reply has status 200, no
  \<^verbatim>\<open>error\<close> in it, a content at \<^verbatim>\<open>["choices"][0]["message"]["content"]\<close>, a usage
  that \<^verbatim>\<open>TokenUsage\<close> accepts, a cost, and the response built from them passes the
  validation of \<^verbatim>\<open>GenericResponse\<close>; the response then has that content as its
  message, no errors and that usage, and the tracker is untouched. In every other case
  the call raises.
\<close>

theorem call_single_request_returns_iff:
  "call_single_request TokenUsage completion_cost validates time_now datetime_now reply request st
     = (Inr r, st') \<longleftrightarrow>
     (\<exists>response content usage cost.
        reply = Some (200, response)
      \<and> py_in ''error'' response = Inr False
      \<and> first_choice_content response = Inr content
      \<and> usage_of TokenUsage response = Inr usage
      \<and> completion_cost response = Inr cost
      \<and> validates r
      \<and> st' = st
      \<and> r = \<lparr> response_message = content, response_errors = None,
              raw_request = api_specific_request request, raw_response = response,
              generic_response.generic_request = generic_request request,
              generic_response.created_at = created_at request,
              finished_at = datetime_now, token_usage = Some usage,
              response_cost = Some cost \<rparr>)"
proof (cases reply)
  case None
  then show ?thesis by (simp add: call_single_request_def)
next
  case (Some sr)
  obtain status response where sr: "sr = (status, response)" by (cases sr)
  show ?thesis
  proof (cases "py_in ''error'' response")
    case (Inl e)
    then show ?thesis by (simp add: call_single_request_def Some sr)
  next
    case (Inr b)
    show ?thesis
    proof (cases b)
      case True
      then show ?thesis
        using Inr by (simp add: call_single_request_def Some sr split: prod.splits)
    next
      case False
      then show ?thesis
        using Inr by (auto simp: call_single_request_def Some sr build_response_Inr)
    qed
  qed
qed

theorem call_single_request_returns_witness:
  "call_single_request sample_token_usage sample_cost sample_validates 100 101
       (Some (200, success_body)) sample_request sample_tracker
     = (Inr \<lparr> response_message = JStr ''42'', response_errors = None,
              raw_request = JObj [(''model'', JStr ''gpt-4o-mini'')], raw_response = success_body,
              generic_response.generic_request = \<lparr> original_row_idx = 7 \<rparr>,
              generic_response.created_at = 10,
              finished_at = 101, token_usage = Some [JNum 5, JNum 1, JNum 6],
              response_cost = Some 0 \<rparr>,
        sample_tracker)"
proof -
  have "py_in ''error'' success_body = Inr False"
    by (simp add: success_body_def)
  moreover have "first_choice_content success_body = Inr (JStr ''42'')"
    by (simp add: success_body_def first_choice_content_def bind_def)
  moreover have "usage_of sample_token_usage success_body = Inr [JNum 5, JNum 1, JNum 6]"
    by (simp add: success_body_def usage_of_def bind_def sample_token_usage_def)
  moreover have "sample_cost success_body = Inr 0"
    by (simp add: sample_cost_def)
  ultimately show ?thesis
    by (subst call_single_request_returns_iff) (simp add: sample_request_def sample_validates_def)
qed

subsection \<open>Lines of a file\<close>

lemma lines_of_Nil: "lines_of s = [] \<longleftrightarrow> s = []"
  by (cases s) (auto split: list.splits)

lemma lines_of_append_LF: "lines_of (a @ LF # b) = lines_of (a @ [LF]) @ lines_of b"
proof (induction a)
  case Nil
  show ?case by simp
next
  case (Cons c a)
  obtain l ls where "lines_of (a @ [LF]) = l # ls"
    using lines_of_Nil [of "a @ [LF]"] by (cases "lines_of (a @ [LF])") auto
  then show ?case
    using Cons.IH by simp
qed

lemma universal_newlines_LF: "universal_newlines (LF # b) = LF # universal_newlines b"
proof -
  have "CR \<noteq> LF" by (simp add: CR_def LF_def)
  then show ?thesis by (cases b) simp_all
qed

lemma universal_newlines_append_LF:
  "universal_newlines (a @ LF # b) = universal_newlines (a @ [LF]) @ universal_newlines b"
proof (induction a rule: universal_newlines.induct)
  case 1
  show ?case by (simp add: universal_newlines_LF)
next
  case (2 c)
  show ?case
    by (simp add: universal_newlines_LF)
next
  case (3 c d cs)
  then show ?case by simp
qed

lemma universal_newlines_ends_LF: "\<exists>u. universal_newlines (a @ [LF]) = u @ [LF]"
proof (induction a rule: universal_newlines.induct)
  case 1
  have "CR \<noteq> LF" by (simp add: CR_def LF_def)
  then show ?case by simp
next
  case (2 c)
  have "CR \<noteq> LF" by (simp add: CR_def LF_def)
  then show ?case by simp
next
  case (3 c d cs)
  then show ?case
    by (auto simp: Cons_eq_append_conv)
qed

lemma read_lines_append:
  assumes "old = [] \<or> last old = LF"
  shows "read_lines (old @ new) = read_lines old @ read_lines new"
proof (cases "old = []")
  case True
  then show ?thesis by (simp add: read_lines_def)
next
  case False
  with assms obtain a where old: "old = a @ [LF]"
    by (metis append_butlast_last_id)
  obtain u where u: "universal_newlines (a @ [LF]) = u @ [LF]"
    using universal_newlines_ends_LF by blast
  have "universal_newlines (old @ new) = u @ LF # universal_newlines new"
    using universal_newlines_append_LF [of a new] by (simp add: old u)
  then have "read_lines (old @ new) = lines_of (u @ LF # universal_newlines new)"
    by (simp add: read_lines_def)
  also have "\<dots> = lines_of (u @ [LF]) @ lines_of (universal_newlines new)"
    by (rule lines_of_append_LF)
  also have "lines_of (u @ [LF]) = read_lines old"
    by (simp add: read_lines_def old u)
  finally show ?thesis
    by (simp add: read_lines_def)
qed

lemma sample_log_lines:
  "read_lines (''ok-0'' @ [LF] @ ''failed-1'' @ [LF] @ ''answered-with-error-2'' @ [LF])
     = [''ok-0'' @ [LF], ''failed-1'' @ [LF], ''answered-with-error-2'' @ [LF]]"
  by (simp add: read_lines_def LF_def CR_def)

lemma sample_request_lines:
  "read_lines (''request-0'' @ [LF] @ ''request-1'' @ [LF] @ ''request-2'' @ [LF]
                @ ''request-3'' @ [LF])
     = [''request-0'' @ [LF], ''request-1'' @ [LF], ''request-2'' @ [LF], ''request-3'' @ [LF]]"
  by (simp add: read_lines_def LF_def CR_def)

lemma sample_response_validate:
  "map (response_validate_json sample_processor)
       [''ok-0'' @ [LF], ''failed-1'' @ [LF], ''answered-with-error-2'' @ [LF]]
     = map Some [sample_response (JStr ''answer'') None 0,
                 sample_response JNull (Some [''timeout'']) 1,
                 sample_response (JStr ''answer'') (Some [''timeout'']) 2]"
  by (simp add: sample_processor_def LF_def)

lemma sample_request_validate:
  "map (request_validate_json sample_processor)
       [''request-0'' @ [LF], ''request-1'' @ [LF], ''request-2'' @ [LF], ''request-3'' @ [LF]]
     = map Some [\<lparr> original_row_idx = 0 \<rparr>, \<lparr> original_row_idx = 1 \<rparr>,
                 \<lparr> original_row_idx = 2 \<rparr>, \<lparr> original_row_idx = 3 \<rparr>]"
  by (simp add: sample_processor_def LF_def)

subsection \<open>The scans of an existing log\<close>

lemma no_retry_scan_all:
  "map (response_validate_json self) lines = map Some responses \<Longrightarrow>
   no_retry_scan self lines (completed, n) =
     Inr (completed \<union> (\<lambda>r. original_row_idx (generic_response.generic_request r)) ` set responses,
          n + length (filter (\<lambda>r. truthy (response_errors r)) responses))"
proof (induction lines arbitrary: responses completed n)
  case Nil
  then show ?case by simp
next
  case (Cons line lines)
  then obtain r rs where rs: "responses = r # rs" "response_validate_json self line = Some r"
      "map (response_validate_json self) lines = map Some rs"
    by (cases responses) auto
  show ?case
    by (simp add: rs Let_def Cons.IH [OF rs(3)])
qed

text \<open>
  What the \<^verbatim>\<open>resume\<close> loop does on a log whose lines all validate: a line is kept, and
  its row completed, exactly when its message is not \<^verbatim>\<open>None\<close>, whatever its errors;
  a line with errors and no message is counted twice as failed.
\<close>

lemma resume_scan_all:
  "map (response_validate_json self) lines = map Some responses \<Longrightarrow>
   resume_scan self lines (completed, out, n) =
     (None,
      completed \<union> (\<lambda>r. original_row_idx (generic_response.generic_request r)) `
         {r \<in> set responses. response_message r \<noteq> JNull},
      out @ concat (map fst (filter (\<lambda>(line, r). response_message r \<noteq> JNull) (zip lines responses))),
      n + length (filter (\<lambda>r. truthy (response_errors r)) responses)
        + length (filter (\<lambda>r. response_message r = JNull) responses))"
proof (induction lines arbitrary: responses completed out n)
  case Nil
  then show ?case by simp
next
  case (Cons line lines)
  then obtain r rs where rs: "responses = r # rs" "response_validate_json self line = Some r"
      "map (response_validate_json self) lines = map Some rs"
    by (cases responses) auto
  show ?case
    by (auto simp: rs Let_def Cons.IH [OF rs(3)])
qed

lemma build_requests_rows:
  "map (request_validate_json self) lines = map Some reqs \<Longrightarrow>
   \<exists>rs. build_requests self completed i acc lines = Inr (acc @ rs)
      \<and> map api_request.generic_request rs = filter (\<lambda>r. original_row_idx r \<notin> completed) reqs
      \<and> map task_id rs = map original_row_idx (filter (\<lambda>r. original_row_idx r \<notin> completed) reqs)"
proof (induction lines arbitrary: reqs i acc)
  case Nil
  then show ?case by simp
next
  case (Cons line lines)
  then obtain r rs where rs: "reqs = r # rs" "request_validate_json self line = Some r"
      "map (request_validate_json self) lines = map Some rs"
    by (cases reqs) auto
  show ?case
  proof (cases "original_row_idx r \<in> completed")
    case True
    then show ?thesis
      using Cons.IH [OF rs(3), of "Suc i" acc] by (simp add: rs)
  next
    case False
    let ?new = "\<lparr> task_id = original_row_idx r, generic_request = r,
                   api_specific_request = create_api_specific_request self r,
                   result = [], created_at = clock self i \<rparr>"
    obtain rs' where "build_requests self completed (Suc i) (acc @ [?new]) lines = Inr ((acc @ [?new]) @ rs')"
        "map api_request.generic_request rs' = filter (\<lambda>r. original_row_idx r \<notin> completed) rs"
        "map task_id rs' = map original_row_idx (filter (\<lambda>r. original_row_idx r \<notin> completed) rs)"
      using Cons.IH [OF rs(3), of "Suc i" "acc @ [?new]"] by blast
    then show ?thesis
      using False by (intro exI [of _ "?new # rs'"]) (simp add: rs)
  qed
qed

lemma build_requests_none_completed:
  "build_requests self {} i acc lines = Inr requests \<Longrightarrow>
   map (Some \<circ> api_request.generic_request) requests =
     map (Some \<circ> api_request.generic_request) acc @ map (request_validate_json self) lines"
  by (induction self "{} :: int set" i acc lines rule: build_requests.induct)
     (auto split: option.splits)

lemma sample_resume_scan:
  "resume_scan sample_processor
       [''ok-0'' @ [LF], ''failed-1'' @ [LF], ''answered-with-error-2'' @ [LF]] ({}, [], 0)
     = (None, {0, 2}, ''ok-0'' @ [LF] @ ''answered-with-error-2'' @ [LF], 3)"
  by (simp add: sample_processor_def sample_response_def truthy_def Let_def insert_commute
      LF_def)

lemma sample_build_requests:
  "build_requests sample_processor {0, 2} 0 []
       [''request-0'' @ [LF], ''request-1'' @ [LF], ''request-2'' @ [LF], ''request-3'' @ [LF]]
     = Inr [\<lparr> task_id = 1, generic_request = \<lparr> original_row_idx = 1 \<rparr>,
              api_specific_request = JObj [(''row'', JNum 1)], result = [], created_at = 1 \<rparr>,
            \<lparr> task_id = 3, generic_request = \<lparr> original_row_idx = 3 \<rparr>,
              api_specific_request = JObj [(''row'', JNum 3)], result = [], created_at = 3 \<rparr>]"
  by (simp add: sample_processor_def LF_def)

lemma sample_resume_load:
  "load_completed sample_processor ''responses.jsonl'' True resume_no_retry (sample_world [])
     = (Finished {0, 2},
        \<lparr> files =
            [''requests.jsonl'' \<mapsto>
               ''request-0'' @ [LF] @ ''request-1'' @ [LF] @ ''request-2'' @ [LF]
                 @ ''request-3'' @ [LF],
             ''responses.jsonl'' \<mapsto> ''ok-0'' @ [LF] @ ''answered-with-error-2'' @ [LF]],
          stdin = [] \<rparr>)"
  unfolding load_completed_def
  by (auto simp: sample_world_def read_lines_def LF_def CR_def sample_processor_def
      sample_response_def truthy_def Let_def insert_commute fun_eq_iff)

lemma sample_resume_run:
  "process_requests_from_file sample_processor ''requests.jsonl'' ''responses.jsonl''
       True resume_no_retry (sample_world [])
     = (Finished
          [\<lparr> task_id = 1, generic_request = \<lparr> original_row_idx = 1 \<rparr>,
             api_specific_request = JObj [(''row'', JNum 1)], result = [], created_at = 1 \<rparr>,
           \<lparr> task_id = 3, generic_request = \<lparr> original_row_idx = 3 \<rparr>,
             api_specific_request = JObj [(''row'', JNum 3)], result = [], created_at = 3 \<rparr>],
        \<lparr> files =
            [''requests.jsonl'' \<mapsto>
               ''request-0'' @ [LF] @ ''request-1'' @ [LF] @ ''request-2'' @ [LF]
                 @ ''request-3'' @ [LF],
             ''responses.jsonl'' \<mapsto>
               ''ok-0'' @ [LF] @ ''answered-with-error-2'' @ [LF] @ ''new-1'' @ [LF]
                 @ ''new-3'' @ [LF]],
          stdin = [] \<rparr>)"
  unfolding process_requests_from_file_def sample_resume_load
  by (auto simp: read_lines_def LF_def CR_def sample_processor_def sample_response_def
      Let_def append_text_def response_lines_def fun_eq_iff)

subsection \<open>Resuming\<close>

text \<open>
  C1. The claim fails on the code at a log line that has errors and a message. In the
  sample log row 2 is such a line. With \<^verbatim>\<open>resume=True\<close> the loop counts it as
  failed and still keeps it: row 2 is in the completed set, its line stays in the rewritten
  log, and only rows 1 and 3 are submitted.
\<close>

theorem resume_keeps_line_with_errors_and_message:
  "response_validate_json sample_processor (''answered-with-error-2'' @ [LF])
     = Some (sample_response (JStr ''answer'') (Some [''timeout'']) 2)
   \<and> resume_scan sample_processor
       (read_lines (''ok-0'' @ [LF] @ ''failed-1'' @ [LF] @ ''answered-with-error-2'' @ [LF]))
       ({}, [], 0)
     = (None, {0, 2}, ''ok-0'' @ [LF] @ ''answered-with-error-2'' @ [LF], 3)
   \<and> fst (load_completed sample_processor ''responses.jsonl'' True False (sample_world []))
     = Finished {0, 2}
   \<and> files (snd (load_completed sample_processor ''responses.jsonl'' True False (sample_world [])))
        ''responses.jsonl''
     = Some (''ok-0'' @ [LF] @ ''answered-with-error-2'' @ [LF])
   \<and> fst (process_requests_from_file sample_processor ''requests.jsonl'' ''responses.jsonl''
            True False (sample_world []))
     = Finished
         [\<lparr> task_id = 1, generic_request = \<lparr> original_row_idx = 1 \<rparr>,
            api_specific_request = JObj [(''row'', JNum 1)], result = [], created_at = 1 \<rparr>,
          \<lparr> task_id = 3, generic_request = \<lparr> original_row_idx = 3 \<rparr>,
            api_specific_request = JObj [(''row'', JNum 3)], result = [], created_at = 3 \<rparr>]"
proof -
  have valid: "response_validate_json sample_processor (''answered-with-error-2'' @ [LF])
     = Some (sample_response (JStr ''answer'') (Some [''timeout'']) 2)"
    by (simp add: sample_processor_def LF_def)
  have scan: "resume_scan sample_processor
       (read_lines (''ok-0'' @ [LF] @ ''failed-1'' @ [LF] @ ''answered-with-error-2'' @ [LF]))
       ({}, [], 0)
     = (None, {0, 2}, ''ok-0'' @ [LF] @ ''answered-with-error-2'' @ [LF], 3)"
    by (simp only: sample_log_lines sample_resume_scan)
  show ?thesis
    by (simp only: valid scan sample_resume_load [of False] sample_resume_run [of False]
          fst_conv snd_conv)
       simp
qed

text \<open>
  What the \<^verbatim>\<open>resume_no_retry\<close> branch does when \<^verbatim>\<open>resume\<close> is unset, on a log
  whose lines all validate: the completed set is the set of the rows of all logged
  responses, failed or not, and the log is not rewritten; the requests submitted are those
  of the request file whose row is not in the log, in the file's order, and the log ends
  as its old text followed by the lines of their responses.
\<close>

lemma resume_no_retry_completes_every_logged_row:
  assumes "files w save_filepath = Some content"
    and "\<not> resume" and "resume_no_retry"
    and "map (response_validate_json self) (read_lines content) = map Some responses"
    and "files w generic_request_filepath = Some request_content"
    and "map (request_validate_json self) (read_lines request_content) = map Some reqs"
  shows "load_completed self save_filepath resume resume_no_retry w =
           (Finished ((\<lambda>r. original_row_idx (generic_response.generic_request r)) ` set responses), w)
       \<and> (\<exists>requests.
             process_requests_from_file self generic_request_filepath save_filepath
                 resume resume_no_retry w
               = (Finished requests,
                  w\<lparr>files := (files w)(save_filepath \<mapsto>
                       content @ response_lines self (process_requests self requests))\<rparr>)
           \<and> map api_request.generic_request requests =
               filter (\<lambda>r. original_row_idx r \<notin>
                             (\<lambda>r. original_row_idx (generic_response.generic_request r)) ` set responses)
                 reqs
           \<and> map task_id requests = map (original_row_idx \<circ> api_request.generic_request) requests)"
proof -
  let ?done = "(\<lambda>r. original_row_idx (generic_response.generic_request r)) ` set responses"
  have load: "load_completed self save_filepath resume resume_no_retry w = (Finished ?done, w)"
    using assms(1-3) by (simp add: load_completed_def no_retry_scan_all [OF assms(4)])
  obtain rs where rs: "build_requests self ?done 0 [] (read_lines request_content) = Inr ([] @ rs)"
      "map api_request.generic_request rs = filter (\<lambda>r. original_row_idx r \<notin> ?done) reqs"
      "map task_id rs = map original_row_idx (filter (\<lambda>r. original_row_idx r \<notin> ?done) reqs)"
    using build_requests_rows [OF assms(6), of ?done 0 "[]"] by blast
  have "process_requests_from_file self generic_request_filepath save_filepath resume resume_no_retry w
          = (Finished rs,
             w\<lparr>files := (files w)(save_filepath \<mapsto>
                  content @ response_lines self (process_requests self rs))\<rparr>)"
    using rs(1) assms(1)
    by (simp add: process_requests_from_file_def load assms(5) Let_def append_text_def)
  moreover have "map task_id rs = map (original_row_idx \<circ> api_request.generic_request) rs"
    using rs(2,3) by (simp flip: map_map)
  ultimately show ?thesis
    using load rs(2) by blast
qed

lemma sample_no_retry_load:
  "load_completed sample_processor ''responses.jsonl'' False True (sample_world [])
     = (Finished {0, 1, 2}, sample_world [])"
proof -
  have 1: "files (sample_world []) ''responses.jsonl''
             = Some (''ok-0'' @ [LF] @ ''failed-1'' @ [LF] @ ''answered-with-error-2'' @ [LF])"
    by (simp add: sample_world_def)
  have 5: "files (sample_world []) ''requests.jsonl''
             = Some (''request-0'' @ [LF] @ ''request-1'' @ [LF] @ ''request-2'' @ [LF]
                       @ ''request-3'' @ [LF])"
    by (simp add: sample_world_def)
  have 4: "map (response_validate_json sample_processor)
             (read_lines (''ok-0'' @ [LF] @ ''failed-1'' @ [LF] @ ''answered-with-error-2'' @ [LF]))
           = map Some [sample_response (JStr ''answer'') None 0,
                 sample_response JNull (Some [''timeout'']) 1,
                 sample_response (JStr ''answer'') (Some [''timeout'']) 2]"
    by (simp only: sample_log_lines sample_response_validate)
  have 6: "map (request_validate_json sample_processor)
             (read_lines (''request-0'' @ [LF] @ ''request-1'' @ [LF] @ ''request-2'' @ [LF]
                       @ ''request-3'' @ [LF]))
           = map Some [\<lparr> original_row_idx = 0 \<rparr>, \<lparr> original_row_idx = 1 \<rparr>,
                 \<lparr> original_row_idx = 2 \<rparr>, \<lparr> original_row_idx = 3 \<rparr>]"
    by (simp only: sample_request_lines sample_request_validate)
  have ids: "(\<lambda>r. original_row_idx (generic_response.generic_request r)) `
               set [sample_response (JStr ''answer'') None 0,
                    sample_response JNull (Some [''timeout'']) 1,
                    sample_response (JStr ''answer'') (Some [''timeout'']) 2] = {0, 1, 2}"
    by (simp add: sample_response_def)
  from resume_no_retry_completes_every_logged_row [OF 1 _ _ 4 5 6, of False True]
  show ?thesis
    unfolding ids by simp
qed

text \<open>
  C5. The claim fails on the code when \<^verbatim>\<open>resume\<close> is set as well: the
  \<^verbatim>\<open>resume\<close> branch is tested first and \<^verbatim>\<open>resume_no_retry\<close> is not looked at.
  On the sample log, with both flags set, row 1, logged as failed, is left out of the
  completed set, its line is dropped from the log, and it is submitted again; with
  \<^verbatim>\<open>resume_no_retry\<close> alone it is completed and the log is left as it was.
\<close>

theorem resume_wins_over_resume_no_retry:
  "response_validate_json sample_processor (''failed-1'' @ [LF])
     = Some (sample_response JNull (Some [''timeout'']) 1)
   \<and> fst (load_completed sample_processor ''responses.jsonl'' True True (sample_world []))
     = Finished {0, 2}
   \<and> (1 :: int) \<notin> {0, 2}
   \<and> process_requests_from_file sample_processor ''requests.jsonl'' ''responses.jsonl''
            True True (sample_world [])
     = (Finished
          [\<lparr> task_id = 1, generic_request = \<lparr> original_row_idx = 1 \<rparr>,
             api_specific_request = JObj [(''row'', JNum 1)], result = [], created_at = 1 \<rparr>,
           \<lparr> task_id = 3, generic_request = \<lparr> original_row_idx = 3 \<rparr>,
             api_specific_request = JObj [(''row'', JNum 3)], result = [], created_at = 3 \<rparr>],
        \<lparr> files =
            [''requests.jsonl'' \<mapsto>
               ''request-0'' @ [LF] @ ''request-1'' @ [LF] @ ''request-2'' @ [LF]
                 @ ''request-3'' @ [LF],
             ''responses.jsonl'' \<mapsto>
               ''ok-0'' @ [LF] @ ''answered-with-error-2'' @ [LF] @ ''new-1'' @ [LF]
                 @ ''new-3'' @ [LF]],
          stdin = [] \<rparr>)
   \<and> load_completed sample_processor ''responses.jsonl'' False True (sample_world [])
     = (Finished {0, 1, 2}, sample_world [])"
proof -
  have valid: "response_validate_json sample_processor (''failed-1'' @ [LF])
     = Some (sample_response JNull (Some [''timeout'']) 1)"
    by (simp add: sample_processor_def LF_def)
  show ?thesis
    by (simp only: valid sample_resume_load [of True] sample_resume_run [of True]
          sample_no_retry_load fst_conv)
       simp
qed

subsection \<open>An existing log and no resume flag\<close>

text \<open>
  C6. When the save file exists and neither flag is set, the function reads one line of
  input, and for every answer other than \<^verbatim>\<open>y\<close>, \<^verbatim>\<open>Y\<close> and the empty string it
  returns at once: no request is read or processed and no file is touched.
\<close>

theorem no_confirmation_aborts:
  assumes "files w save_filepath = Some content"
    and "\<not> resume" and "\<not> resume_no_retry"
    and "stdin w = user_input # rest"
    and "user_input \<noteq> ''y''" and "user_input \<noteq> ''Y''" and "user_input \<noteq> ''''"
  shows "process_requests_from_file self generic_request_filepath save_filepath resume resume_no_retry w
           = (Aborted, w\<lparr>stdin := rest\<rparr>)"
  using assms
  by (simp add: process_requests_from_file_def load_completed_def lower_y lower_empty)

theorem no_confirmation_aborts_witness:
  "process_requests_from_file sample_processor ''requests.jsonl'' ''responses.jsonl'' False False
       (sample_world [''no''])
     = (Aborted, (sample_world [''no''])\<lparr>stdin := []\<rparr>)
   \<and> files ((sample_world [''no''])\<lparr>stdin := []\<rparr>) = files (sample_world [''no''])"
proof -
  have 1: "files (sample_world [''no'']) ''responses.jsonl''
             = Some (''ok-0'' @ [LF] @ ''failed-1'' @ [LF] @ ''answered-with-error-2'' @ [LF])"
    by (simp add: sample_world_def)
  have 4: "stdin (sample_world [''no'']) = ''no'' # []"
    by (simp add: sample_world_def)
  show ?thesis
    using no_confirmation_aborts [OF 1 _ _ 4, of False False sample_processor "''requests.jsonl''"]
    by simp
qed

text \<open>
  C9. When the save file exists, neither flag is set and the answer is \<^verbatim>\<open>y\<close>,
  \<^verbatim>\<open>Y\<close> or empty, the completed set stays empty. If the function then runs to its
  end, it has submitted every row of the request file, and the save file holds its old
  text, unchanged, followed by one line for each new response: nothing is truncated or
  rewritten. When the old text is empty or ends in a line feed, the lines of the file are
  then its old lines followed by the new ones. If the function raises instead, the save
  file holds its old text.
\<close>

theorem confirmation_appends:
  assumes "files w save_filepath = Some old"
    and "\<not> resume" and "\<not> resume_no_retry"
    and "stdin w = user_input # rest"
    and "user_input = ''y'' \<or> user_input = ''Y'' \<or> user_input = ''''"
  shows "load_completed self save_filepath resume resume_no_retry w = (Finished {}, w\<lparr>stdin := rest\<rparr>)
       \<and> (case process_requests_from_file self generic_request_filepath save_filepath
                  resume resume_no_retry w of
             (Finished requests, w') \<Rightarrow>
               files w' save_filepath
                 = Some (old @ response_lines self (process_requests self requests))
               \<and> (old = [] \<or> last old = LF \<longrightarrow>
                    read_lines (old @ response_lines self (process_requests self requests))
                      = read_lines old
                        @ read_lines (response_lines self (process_requests self requests)))
               \<and> (\<exists>request_content.
                     files w generic_request_filepath = Some request_content
                   \<and> map (request_validate_json self) (read_lines request_content)
                       = map (Some \<circ> api_request.generic_request) requests)
           | (Aborted, w') \<Rightarrow> False
           | (Raised e, w') \<Rightarrow> files w' save_filepath = Some old)"
proof -
  have low: "\<not> (lower user_input \<noteq> ''y'' \<and> lower user_input \<noteq> '''')"
    using assms(5) by (auto simp: lower_y lower_empty)
  have load: "load_completed self save_filepath resume resume_no_retry w
                = (Finished {}, w\<lparr>stdin := rest\<rparr>)"
    using assms(1-4) low by (simp add: load_completed_def)
  show ?thesis
  proof (cases "files w generic_request_filepath")
    case None
    then show ?thesis
      using load assms(1) by (simp add: process_requests_from_file_def)
  next
    case (Some request_content)
    show ?thesis
    proof (cases "build_requests self {} 0 [] (read_lines request_content)")
      case (Inl e)
      then show ?thesis
        using load assms(1) Some by (simp add: process_requests_from_file_def)
    next
      case (Inr requests)
      from build_requests_none_completed [OF Inr]
      have "map (request_validate_json self) (read_lines request_content)
              = map (Some \<circ> api_request.generic_request) requests"
        by simp
      then show ?thesis
        using load assms(1) Some Inr
        by (simp add: process_requests_from_file_def Let_def append_text_def read_lines_append)
    qed
  qed
qed

theorem confirmation_appends_witness:
  "last (''ok-0'' @ [LF] @ ''failed-1'' @ [LF] @ ''answered-with-error-2'' @ [LF]) = LF
   \<and> load_completed sample_processor ''responses.jsonl'' False False (sample_world [''Y''])
     = (Finished {}, (sample_world [''Y''])\<lparr>stdin := []\<rparr>)
   \<and> files (snd (process_requests_from_file sample_processor ''requests.jsonl'' ''responses.jsonl''
                   False False (sample_world [''Y''])))
        ''responses.jsonl''
     = Some (''ok-0'' @ [LF] @ ''failed-1'' @ [LF] @ ''answered-with-error-2'' @ [LF]
             @ ''new-0'' @ [LF] @ ''new-1'' @ [LF] @ ''new-2'' @ [LF] @ ''new-3'' @ [LF])
   \<and> read_lines (''ok-0'' @ [LF] @ ''failed-1'' @ [LF] @ ''answered-with-error-2'' @ [LF]
             @ ''new-0'' @ [LF] @ ''new-1'' @ [LF] @ ''new-2'' @ [LF] @ ''new-3'' @ [LF])
     = [''ok-0'' @ [LF], ''failed-1'' @ [LF], ''answered-with-error-2'' @ [LF],
        ''new-0'' @ [LF], ''new-1'' @ [LF], ''new-2'' @ [LF], ''new-3'' @ [LF]]"
proof -
  have 1: "files (sample_world [''Y'']) ''responses.jsonl''
             = Some (''ok-0'' @ [LF] @ ''failed-1'' @ [LF] @ ''answered-with-error-2'' @ [LF])"
    by (simp add: sample_world_def)
  have 4: "stdin (sample_world [''Y'']) = ''Y'' # []"
    by (simp add: sample_world_def)
  have load: "load_completed sample_processor ''responses.jsonl'' False False (sample_world [''Y''])
     = (Finished {}, (sample_world [''Y''])\<lparr>stdin := []\<rparr>)"
    using confirmation_appends [OF 1 _ _ 4, of False False sample_processor "''requests.jsonl''"]
    by simp
  have run: "files (snd (process_requests_from_file sample_processor ''requests.jsonl'' ''responses.jsonl''
                   False False (sample_world [''Y''])))
        ''responses.jsonl''
     = Some (''ok-0'' @ [LF] @ ''failed-1'' @ [LF] @ ''answered-with-error-2'' @ [LF]
             @ ''new-0'' @ [LF] @ ''new-1'' @ [LF] @ ''new-2'' @ [LF] @ ''new-3'' @ [LF])"
    unfolding process_requests_from_file_def load
    by (simp add: sample_world_def sample_processor_def sample_response_def Let_def
        append_text_def response_lines_def read_lines_def LF_def CR_def)
  have lines: "read_lines (''ok-0'' @ [LF] @ ''failed-1'' @ [LF] @ ''answered-with-error-2'' @ [LF]
             @ ''new-0'' @ [LF] @ ''new-1'' @ [LF] @ ''new-2'' @ [LF] @ ''new-3'' @ [LF])
     = [''ok-0'' @ [LF], ''failed-1'' @ [LF], ''answered-with-error-2'' @ [LF],
        ''new-0'' @ [LF], ''new-1'' @ [LF], ''new-2'' @ [LF], ''new-3'' @ [LF]]"
    by (simp add: read_lines_def LF_def CR_def)
  have "last (''ok-0'' @ [LF] @ ''failed-1'' @ [LF] @ ''answered-with-error-2'' @ [LF]) = LF"
    by simp
  with load run lines show ?thesis by blast
qed

text \<open>
  On a log whose last line has no line feed, the first new record lands on that line.
\<close>

lemma append_after_partial_line:
  "read_lines (''ok-0'' @ [LF] @ ''partial'' @ ''new-0'' @ [LF])
     = [''ok-0'' @ [LF], ''partialnew-0'' @ [LF]]"
  by (simp add: read_lines_def LF_def CR_def)

subsection \<open>Fingerprinting\<close>



end
